theory Spec2Isabelle
  imports Main "HOL-Library.AList"
begin

section \<open>JavaScript values\<close>

text \<open>
  The values the application moves around are the results of \<^verbatim>\<open>JSON.parse\<close> and the
  documents of the store. A number literal is kept as mantissa and decimal exponent
  (\<open>JNum m e\<close> stands for \<open>m * 10^e\<close>); its rounding to a double is not modelled, and
  nothing below rests on the value of a number. \<^verbatim>\<open>undefined\<close> is \<open>None\<close> of \<open>json option\<close>.
  An object holds each of its keys once. Strings are lists of 8-bit characters: the model
  covers text whose UTF-16 code units are below 256.
\<close>

datatype json =
    JNull
  | JBool bool
  | JNum int int
  | JStr string
  | JArr "json list"
  | JObj "(string \<times> json) list"

datatype error = TypeError | RangeError | SyntaxError | FirestoreError | ApiError | NetworkError

type_synonym fields = "(string \<times> json) list"

text \<open>Truthiness of a value, as \<^verbatim>\<open>if (v)\<close>, \<^verbatim>\<open>v && w\<close> and \<^verbatim>\<open>v || w\<close> test it.\<close>

fun truthy :: "json \<Rightarrow> bool" where
  "truthy JNull = False"
| "truthy (JBool b) = b"
| "truthy (JNum m e) = (m \<noteq> 0)"
| "truthy (JStr s) = (s \<noteq> [])"
| "truthy (JArr xs) = True"
| "truthy (JObj fs) = True"

text \<open>
  Reading a named property \<^verbatim>\<open>v.k\<close>: a TypeError on \<^verbatim>\<open>null\<close>, the field of an object,
  \<^verbatim>\<open>undefined\<close> on every other value (the property names the program reads, \<^verbatim>\<open>date\<close>,
  \<^verbatim>\<open>plannedActivity\<close>, \<^verbatim>\<open>candidates\<close>, \<^verbatim>\<open>content\<close>, \<^verbatim>\<open>parts\<close>, \<^verbatim>\<open>text\<close>, are no built-in
  properties of arrays, strings, numbers or booleans).
\<close>

fun get_prop :: "json \<Rightarrow> string \<Rightarrow> error + json option" where
  "get_prop JNull k = Inl TypeError"
| "get_prop (JObj fs) k = Inr (map_of fs k)"
| "get_prop v k = Inr None"

text \<open>\<^verbatim>\<open>xs.forEach(f)\<close> exists on arrays only.\<close>

fun forEach_items :: "json \<Rightarrow> error + json list" where
  "forEach_items (JArr xs) = Inr xs"
| "forEach_items v = Inl TypeError"

text \<open>
  The object spread \<^verbatim>\<open>{...day}\<close>. The program spreads a value only after it has read a
  string-valued \<^verbatim>\<open>date\<close> property from it, so only the object case is ever reached.
\<close>

fun spread :: "json \<Rightarrow> fields" where
  "spread (JObj fs) = fs"
| "spread v = []"

section \<open>The document store\<close>

text \<open>
  The store collaborator (Firestore) is modelled by its contract. A document is addressed
  by its path segments and holds fields. \<^verbatim>\<open>set(ref, data, {merge: true})\<close> creates the
  document if it is absent and otherwise overlays the supplied fields: a supplied leaf
  value (anything but a non-empty map) replaces the stored one, a supplied non-empty map
  is merged into the stored map field by field. A batch is committed atomically: either
  every operation is applied, in order, or the commit fails and none is.
  The validation of field values by the client library (for example its refusal of
  directly nested arrays) and of document ids beyond being a non-empty string is outside
  the model.
\<close>

type_synonym path = "string list"

type_synonym store = "path \<Rightarrow> fields option"

datatype write_op = SetMerge path fields | Delete path

fun merge_json :: "json \<Rightarrow> json option \<Rightarrow> json" where
  "merge_json (JObj new) old =
     (if new = [] then JObj []
      else JObj (fold (\<lambda>(k, v) acc. AList.update k (merge_json v (map_of acc k)) acc) new
                  (case old of Some (JObj ofs) \<Rightarrow> ofs | _ \<Rightarrow> [])))"
| "merge_json v old = v"

definition merge_doc :: "fields option \<Rightarrow> fields \<Rightarrow> fields" where
  "merge_doc old new =
     fold (\<lambda>(k, v) acc. AList.update k (merge_json v (map_of acc k)) acc) new
       (case old of Some ofs \<Rightarrow> ofs | None \<Rightarrow> [])"

fun apply_op :: "write_op \<Rightarrow> store \<Rightarrow> store" where
  "apply_op (SetMerge p fs) st = st(p \<mapsto> merge_doc (st p) fs)"
| "apply_op (Delete p) st = st(p := None)"

definition commit :: "bool \<Rightarrow> write_op list \<Rightarrow> store \<Rightarrow> error + store" where
  "commit accepted batch st = (if accepted then Inr (fold apply_op batch st) else Inl FirestoreError)"

text \<open>The value of field \<open>f\<close> of the document at \<open>p\<close>, if there is one.\<close>

definition field :: "store \<Rightarrow> path \<Rightarrow> string \<Rightarrow> json option" where
  "field st p f = (case st p of None \<Rightarrow> None | Some fs \<Rightarrow> map_of fs f)"

text \<open>Whether a write operation can change field \<open>f\<close> of the document at \<open>p\<close>.\<close>

definition touches :: "write_op \<Rightarrow> path \<Rightarrow> string \<Rightarrow> bool" where
  "touches w p f = (case w of SetMerge q fs \<Rightarrow> q = p \<and> f \<in> fst ` set fs | Delete q \<Rightarrow> q = p)"

text \<open>
  \<^verbatim>\<open>doc(collectionRef, id)\<close>: the reference of a document of a collection. The library
  throws when the id is missing, not a string or empty.
\<close>

fun doc :: "path \<Rightarrow> json option \<Rightarrow> error + path" where
  "doc coll (Some (JStr s)) = (if s = [] then Inl FirestoreError else Inr (coll @ [s]))"
| "doc coll v = Inl FirestoreError"

section \<open>Session state and paths\<close>

text \<open>
  What the handlers read of the state of the application: the id of the application, the
  uid of the signed-in user and the id of the selected plan.
\<close>

record session =
  appId :: string
  user :: "string option"
  currentPlanId :: "string option"

text \<open>\<^verbatim>\<open>appId.replace(/[^a-zA-Z0-9_-]/g, '_')\<close>\<close>

definition is_id_char :: "char \<Rightarrow> bool" where
  "is_id_char c = (let n = (of_char c :: nat) in
     (97 \<le> n \<and> n \<le> 122) \<or> (65 \<le> n \<and> n \<le> 90) \<or> (48 \<le> n \<and> n \<le> 57) \<or> n = 95 \<or> n = 45)"

definition safeAppId :: "string \<Rightarrow> string" where
  "safeAppId a = map (\<lambda>c. if is_id_char c then c else CHR ''_'') a"

definition planRef :: "string \<Rightarrow> string \<Rightarrow> string \<Rightarrow> path" where
  "planRef a uid pid = [''artifacts'', safeAppId a, ''users'', uid, ''plans'', pid]"

definition daysRef :: "string \<Rightarrow> string \<Rightarrow> string \<Rightarrow> path" where
  "daysRef a uid pid = planRef a uid pid @ [''days'']"

text \<open>\<^verbatim>\<open>!currentPlanId\<close>: no plan is selected (\<^verbatim>\<open>null\<close>, or the empty string).\<close>

fun selected :: "string option \<Rightarrow> string option" where
  "selected None = None"
| "selected (Some pid) = (if pid = [] then None else Some pid)"

section \<open>The merge engine\<close>

subsection \<open>handleChatUpdatePlan\<close>

text \<open>
  The body of \<^verbatim>\<open>newDays.forEach\<close>: a record is written only when both \<^verbatim>\<open>day.date\<close> and
  \<^verbatim>\<open>day.plannedActivity\<close> are truthy, and the write carries these two fields only.
\<close>

fun chat_ops :: "path \<Rightarrow> json list \<Rightarrow> error + write_op list" where
  "chat_ops coll [] = Inr []"
| "chat_ops coll (day # rest) =
     (case get_prop day ''date'' of
        Inl e \<Rightarrow> Inl e
      | Inr None \<Rightarrow> chat_ops coll rest
      | Inr (Some dv) \<Rightarrow>
          if truthy dv then
            (case get_prop day ''plannedActivity'' of
               Inl e \<Rightarrow> Inl e
             | Inr None \<Rightarrow> chat_ops coll rest
             | Inr (Some pv) \<Rightarrow>
                 if truthy pv then
                   (case doc coll (Some dv) of
                      Inl e \<Rightarrow> Inl e
                    | Inr docRef \<Rightarrow>
                        (case chat_ops coll rest of
                           Inl e \<Rightarrow> Inl e
                         | Inr ops \<Rightarrow>
                             Inr (SetMerge docRef
                                    [(''date'', dv), (''plannedActivity'', pv)] # ops)))
                 else chat_ops coll rest)
          else chat_ops coll rest)"

text \<open>The batch that \<^verbatim>\<open>handleChatUpdatePlan\<close> builds before it commits.\<close>

definition chat_batch :: "string \<Rightarrow> string \<Rightarrow> string \<Rightarrow> json \<Rightarrow> error + write_op list" where
  "chat_batch a uid pid newDays =
     (case forEach_items newDays of
        Inl e \<Rightarrow> Inl e
      | Inr days \<Rightarrow> chat_ops (daysRef a uid pid) days)"

text \<open>
  The handler returns the store and the alerts shown. An exception thrown while the batch
  is built is not caught (\<open>Inl\<close>); a rejected commit is caught and alerted.
\<close>

definition handleChatUpdatePlan ::
  "session \<Rightarrow> bool \<Rightarrow> json \<Rightarrow> store \<Rightarrow> error + store \<times> string list" where
  "handleChatUpdatePlan s accepted newDays st =
     (case (user s, selected (currentPlanId s)) of
        (Some uid, Some pid) \<Rightarrow>
          (case chat_batch (appId s) uid pid newDays of
             Inl e \<Rightarrow> Inl e
           | Inr batch \<Rightarrow>
               (case commit accepted batch st of
                  Inr st' \<Rightarrow> Inr (st', [])
                | Inl e \<Rightarrow> Inr (st, [''Failed to update plan.''])))
      | _ \<Rightarrow> Inr (st, []))"

subsection \<open>handleAdjustPlan\<close>

text \<open>
  The body of \<^verbatim>\<open>generatedPlan.forEach\<close>: every record is written, with all of its fields,
  under the document id \<^verbatim>\<open>day.date\<close>.
\<close>

fun adjust_ops :: "path \<Rightarrow> json list \<Rightarrow> error + write_op list" where
  "adjust_ops coll [] = Inr []"
| "adjust_ops coll (day # rest) =
     (case get_prop day ''date'' of
        Inl e \<Rightarrow> Inl e
      | Inr d \<Rightarrow>
          (case doc coll d of
             Inl e \<Rightarrow> Inl e
           | Inr docRef \<Rightarrow>
               (case adjust_ops coll rest of
                  Inl e \<Rightarrow> Inl e
                | Inr ops \<Rightarrow> Inr (SetMerge docRef (spread day) # ops))))"

definition adjust_batch :: "string \<Rightarrow> string \<Rightarrow> string \<Rightarrow> json \<Rightarrow> error + write_op list" where
  "adjust_batch a uid pid generatedPlan =
     (case forEach_items generatedPlan of
        Inl e \<Rightarrow> Inl e
      | Inr days \<Rightarrow> adjust_ops (daysRef a uid pid) days)"

text \<open>
  \<open>generated\<close> is the outcome of the call of \<^verbatim>\<open>generateTrainingPlan\<close>, an exception or
  the value returned (\<open>JNull\<close> for \<^verbatim>\<open>null\<close>); \<open>hasPlan\<close> says whether \<^verbatim>\<open>currentPlan\<close> is set.
  The handler has no \<^verbatim>\<open>try\<close>: an exception of the generation, of the loop or of the commit
  leaves it (\<open>Inl\<close>). The logs with actual data that the handler collects go into the
  prompt only.
\<close>

definition handleAdjustPlan ::
  "session \<Rightarrow> bool \<Rightarrow> bool \<Rightarrow> error + json \<Rightarrow> store \<Rightarrow> error + store \<times> string list" where
  "handleAdjustPlan s hasPlan accepted generated st =
     (case user s of
        None \<Rightarrow> Inr (st, [])
      | Some uid \<Rightarrow>
          if \<not> hasPlan then Inr (st, [])
          else
            (case generated of
               Inl e \<Rightarrow> Inl e
             | Inr generatedPlan \<Rightarrow>
                 if truthy generatedPlan then
                   (case currentPlanId s of
                      None \<Rightarrow> Inl FirestoreError
                    | Some pid \<Rightarrow>
                        (case adjust_batch (appId s) uid pid generatedPlan of
                           Inl e \<Rightarrow> Inl e
                         | Inr batch \<Rightarrow>
                             (case commit accepted batch st of
                                Inl e \<Rightarrow> Inl e
                              | Inr st' \<Rightarrow> Inr (st', [''Plan adjusted based on your logs!'']))))
                 else Inr (st, [''Failed to adjust plan.''])))"

section \<open>Text\<close>

text \<open>
  White space as \<^verbatim>\<open>String.prototype.trim\<close> and the regular expression class \<^verbatim>\<open>\s\<close> see it,
  among the characters below 256: tab, line feed, vertical tab, form feed, carriage
  return, space and no-break space.
\<close>

definition is_space :: "char \<Rightarrow> bool" where
  "is_space c = (let n = (of_char c :: nat) in (9 \<le> n \<and> n \<le> 13) \<or> n = 32 \<or> n = 160)"

definition trim :: "string \<Rightarrow> string" where
  "trim s = rev (dropWhile is_space (rev (dropWhile is_space s)))"

definition is_prefix :: "string \<Rightarrow> string \<Rightarrow> bool" where
  "is_prefix p s = (take (length p) s = p)"

text \<open>
  \<open>split_first p s\<close> cuts \<open>s\<close> at the first occurrence of the non-empty text \<open>p\<close>: what
  stands before it and what stands after it.
\<close>

fun split_first :: "string \<Rightarrow> string \<Rightarrow> (string \<times> string) option" where
  "split_first p [] = None"
| "split_first p (c # cs) =
     (if is_prefix p (c # cs) then Some ([], drop (length p) (c # cs))
      else (case split_first p cs of
              None \<Rightarrow> None
            | Some (before, after) \<Rightarrow> Some (c # before, after)))"

text \<open>\<^verbatim>\<open>s.replace(p, "")\<close> with a string pattern: the first occurrence of \<open>p\<close> is removed.\<close>

definition remove_first :: "string \<Rightarrow> string \<Rightarrow> string" where
  "remove_first p s =
     (if p = [] then s
      else (case split_first p s of None \<Rightarrow> s | Some (before, after) \<Rightarrow> before @ after))"

section \<open>JSON.parse\<close>

text \<open>
  \<^verbatim>\<open>JSON.parse\<close> is modelled by a recursive-descent parser of the JSON grammar; \<open>None\<close> is the
  SyntaxError. The parser runs on fuel; every second call at the latest consumes a
  character, so \<open>2 * length s + 2\<close> is enough for the text \<open>s\<close>. An escape \<^verbatim>\<open>\uXXXX\<close> of a code
  unit above 255 has no value in the 8-bit strings of the model and is refused.
\<close>

definition is_json_ws :: "char \<Rightarrow> bool" where
  "is_json_ws c = (let n = (of_char c :: nat) in n = 32 \<or> n = 9 \<or> n = 10 \<or> n = 13)"

definition skip_ws :: "string \<Rightarrow> string" where
  "skip_ws s = dropWhile is_json_ws s"

definition is_digit :: "char \<Rightarrow> bool" where
  "is_digit c = (let n = (of_char c :: nat) in 48 \<le> n \<and> n \<le> 57)"

definition digit_val :: "char \<Rightarrow> int" where
  "digit_val c = int (of_char c) - 48"

definition digits_val :: "string \<Rightarrow> int" where
  "digits_val ds = foldl (\<lambda>acc c. 10 * acc + digit_val c) 0 ds"

definition hex_val :: "char \<Rightarrow> nat option" where
  "hex_val c = (let n = (of_char c :: nat) in
     if 48 \<le> n \<and> n \<le> 57 then Some (n - 48)
     else if 97 \<le> n \<and> n \<le> 102 then Some (n - 87)
     else if 65 \<le> n \<and> n \<le> 70 then Some (n - 55)
     else None)"

text \<open>The characters of a string literal after its opening quote, up to the closing one.\<close>

fun parse_chars :: "string \<Rightarrow> (string \<times> string) option" where
  "parse_chars [] = None"
| "parse_chars (c # cs) =
     (if c = CHR 0x22 then Some ([], cs)
      else if c = CHR 0x5C then
        (case cs of
           [] \<Rightarrow> None
         | e # r \<Rightarrow>
             if e = CHR ''u'' then
               (case r of
                  h1 # h2 # h3 # h4 # r' \<Rightarrow>
                    (case (hex_val h1, hex_val h2, hex_val h3, hex_val h4) of
                       (Some a, Some b, Some c', Some d) \<Rightarrow>
                         if a = 0 \<and> b = 0 then
                           (case parse_chars r' of
                              None \<Rightarrow> None
                            | Some (s, rest) \<Rightarrow> Some (char_of (16 * c' + d) # s, rest))
                         else None
                     | _ \<Rightarrow> None)
                | _ \<Rightarrow> None)
             else
               (case (if e = CHR 0x22 \<or> e = CHR 0x5C \<or> e = CHR ''/'' then Some e
                      else if e = CHR ''b'' then Some (CHR 0x08)
                      else if e = CHR ''f'' then Some (CHR 0x0C)
                      else if e = CHR ''n'' then Some (CHR 0x0A)
                      else if e = CHR ''r'' then Some (CHR 0x0D)
                      else if e = CHR ''t'' then Some (CHR 0x09)
                      else None) of
                  None \<Rightarrow> None
                | Some x \<Rightarrow>
                    (case parse_chars r of
                       None \<Rightarrow> None
                     | Some (s, rest) \<Rightarrow> Some (x # s, rest))))
      else if (of_char c :: nat) < 32 then None
      else (case parse_chars cs of
              None \<Rightarrow> None
            | Some (s, rest) \<Rightarrow> Some (c # s, rest)))"

text \<open>
  A number: \<^verbatim>\<open>-? (0 | [1-9][0-9]*) (. [0-9]+)? ([eE] [+-]? [0-9]+)?\<close>, kept as mantissa and
  decimal exponent.
\<close>

definition parse_number :: "string \<Rightarrow> (json \<times> string) option" where
  "parse_number s =
     (let (neg, s1) = (case s of c # r \<Rightarrow> if c = CHR ''-'' then (True, r) else (False, s) | [] \<Rightarrow> (False, s));
          ip = takeWhile is_digit s1;
          s2 = dropWhile is_digit s1
      in if ip = [] \<or> (hd ip = CHR ''0'' \<and> length ip > 1) then None
         else
           (let (fp, s3, okf) =
                  (case s2 of
                     c # r \<Rightarrow>
                       if c = CHR ''.'' then
                         (takeWhile is_digit r, dropWhile is_digit r, takeWhile is_digit r \<noteq> [])
                       else ([], s2, True)
                   | [] \<Rightarrow> ([], s2, True));
                (ex, s4, oke) =
                  (case s3 of
                     c # r \<Rightarrow>
                       if c = CHR ''e'' \<or> c = CHR ''E'' then
                         (let (eneg, r1) =
                                (case r of
                                   d # r' \<Rightarrow>
                                     if d = CHR ''-'' then (True, r')
                                     else if d = CHR ''+'' then (False, r')
                                     else (False, r)
                                 | [] \<Rightarrow> (False, r));
                              ed = takeWhile is_digit r1
                          in ((if eneg then - digits_val ed else digits_val ed),
                              dropWhile is_digit r1, ed \<noteq> []))
                       else (0, s3, True)
                   | [] \<Rightarrow> (0, s3, True));
                m = digits_val (ip @ fp)
            in if okf \<and> oke then Some (JNum (if neg then - m else m) (ex - int (length fp)), s4)
               else None))"

text \<open>
  \<open>parse_value\<close> reads one value; \<open>parse_elems\<close> the elements of an array after its
  bracket, up to the closing one; \<open>parse_members\<close> the members of an object after its
  brace. A key that occurs again replaces the earlier value, as in JavaScript.
\<close>

fun parse_value :: "nat \<Rightarrow> string \<Rightarrow> (json \<times> string) option"
  and parse_elems :: "nat \<Rightarrow> string \<Rightarrow> (json list \<times> string) option"
  and parse_members :: "nat \<Rightarrow> string \<Rightarrow> (fields \<times> string) option" where
  "parse_value 0 s = None"
| "parse_value (Suc n) s =
     (case s of
        [] \<Rightarrow> None
      | c # r \<Rightarrow>
          if c = CHR ''['' then
            (case skip_ws r of
               [] \<Rightarrow> None
             | c' # r' \<Rightarrow>
                 if c' = CHR '']'' then Some (JArr [], r')
                 else (case parse_elems n (c' # r') of
                         None \<Rightarrow> None
                       | Some (vs, rest) \<Rightarrow> Some (JArr vs, rest)))
          else if c = CHR ''{'' then
            (case skip_ws r of
               [] \<Rightarrow> None
             | c' # r' \<Rightarrow>
                 if c' = CHR ''}'' then Some (JObj [], r')
                 else (case parse_members n (c' # r') of
                         None \<Rightarrow> None
                       | Some (ms, rest) \<Rightarrow>
                           Some (JObj (fold (\<lambda>(k, v) acc. AList.update k v acc) ms []), rest)))
          else if c = CHR 0x22 then
            (case parse_chars r of
               None \<Rightarrow> None
             | Some (str, rest) \<Rightarrow> Some (JStr str, rest))
          else if is_prefix ''true'' s then Some (JBool True, drop 4 s)
          else if is_prefix ''false'' s then Some (JBool False, drop 5 s)
          else if is_prefix ''null'' s then Some (JNull, drop 4 s)
          else parse_number s)"
| "parse_elems 0 s = None"
| "parse_elems (Suc n) s =
     (case parse_value n s of
        None \<Rightarrow> None
      | Some (v, r) \<Rightarrow>
          (case skip_ws r of
             [] \<Rightarrow> None
           | c # r' \<Rightarrow>
               if c = CHR '','' then
                 (case parse_elems n (skip_ws r') of
                    None \<Rightarrow> None
                  | Some (vs, rest) \<Rightarrow> Some (v # vs, rest))
               else if c = CHR '']'' then Some ([v], r')
               else None))"
| "parse_members 0 s = None"
| "parse_members (Suc n) s =
     (case s of
        [] \<Rightarrow> None
      | q # r \<Rightarrow>
          if q \<noteq> CHR 0x22 then None
          else
            (case parse_chars r of
               None \<Rightarrow> None
             | Some (k, r1) \<Rightarrow>
                 (case skip_ws r1 of
                    [] \<Rightarrow> None
                  | c # r2 \<Rightarrow>
                      if c \<noteq> CHR '':'' then None
                      else
                        (case parse_value n (skip_ws r2) of
                           None \<Rightarrow> None
                         | Some (v, r3) \<Rightarrow>
                             (case skip_ws r3 of
                                [] \<Rightarrow> None
                              | c' # r4 \<Rightarrow>
                                  if c' = CHR '','' then
                                    (case parse_members n (skip_ws r4) of
                                       None \<Rightarrow> None
                                     | Some (ms, rest) \<Rightarrow> Some ((k, v) # ms, rest))
                                  else if c' = CHR ''}'' then Some ([(k, v)], r4)
                                  else None)))))"

definition JSON_parse :: "string \<Rightarrow> json option" where
  "JSON_parse s =
     (case parse_value (2 * length s + 2) (skip_ws s) of
        None \<Rightarrow> None
      | Some (v, rest) \<Rightarrow> if skip_ws rest = [] then Some v else None)"

section \<open>The generation and chat endpoint\<close>

text \<open>
  Optional chaining: \<^verbatim>\<open>v?.k\<close> and \<^verbatim>\<open>v?.[0]\<close> are \<^verbatim>\<open>undefined\<close> when \<open>v\<close> is \<^verbatim>\<open>null\<close> or
  \<^verbatim>\<open>undefined\<close>, and the property or first element otherwise.
\<close>

fun opt_prop :: "json option \<Rightarrow> string \<Rightarrow> json option" where
  "opt_prop (Some (JObj fs)) k = map_of fs k"
| "opt_prop v k = None"

fun opt_first :: "json option \<Rightarrow> json option" where
  "opt_first (Some (JArr xs)) = (case xs of [] \<Rightarrow> None | x # _ \<Rightarrow> Some x)"
| "opt_first (Some (JStr s)) = (case s of [] \<Rightarrow> None | c # _ \<Rightarrow> Some (JStr [c]))"
| "opt_first (Some (JObj fs)) = map_of fs ''0''"
| "opt_first v = None"

text \<open>\<^verbatim>\<open>result.candidates?.[0]?.content?.parts?.[0]?.text\<close>\<close>

definition candidate_text :: "json \<Rightarrow> error + json option" where
  "candidate_text result =
     (case get_prop result ''candidates'' of
        Inl e \<Rightarrow> Inl e
      | Inr c \<Rightarrow> Inr (opt_prop (opt_first (opt_prop (opt_prop (opt_first c) ''content'') ''parts'')) ''text''))"

text \<open>
  What \<^verbatim>\<open>fetch\<close> gave: the status flag of the response and the outcome of
  \<^verbatim>\<open>response.json()\<close>, which rejects when the body is no JSON.
\<close>

record response =
  ok :: bool
  parsed_body :: "error + json"

subsection \<open>Response handling of generateTrainingPlan\<close>

text \<open>
  \<^verbatim>\<open>jsonString.replace(/^```json\s*|```\s*$/g, '')\<close>. The first alternative matches at the
  start of the text only, and takes the white space that follows the marker; the second
  matches three backquotes followed by nothing but white space up to the end of the text.
\<close>

definition is_close_fence :: "string \<Rightarrow> bool" where
  "is_close_fence s = (take 3 s = ''```'' \<and> list_all is_space (drop 3 s))"

fun drop_close :: "string \<Rightarrow> string" where
  "drop_close [] = []"
| "drop_close (c # cs) = (if is_close_fence (c # cs) then [] else c # drop_close cs)"

definition strip_fences :: "string \<Rightarrow> string" where
  "strip_fences s =
     (if is_prefix ''```json'' s then drop_close (dropWhile is_space (drop 7 s))
      else drop_close s)"

text \<open>
  The \<^verbatim>\<open>try\<close> block: every \<^verbatim>\<open>throw\<close> and every exception of a built-in is an \<open>Inl\<close>.
  \<^verbatim>\<open>jsonString.replace\<close> is a TypeError when the text field holds a truthy value that is no
  string.
\<close>

definition generate_try :: "error + response \<Rightarrow> error + json" where
  "generate_try fetched =
     (case fetched of
        Inl e \<Rightarrow> Inl e
      | Inr resp \<Rightarrow>
          if \<not> ok resp then Inl ApiError
          else
            (case parsed_body resp of
               Inl e \<Rightarrow> Inl e
             | Inr result \<Rightarrow>
                 (case candidate_text result of
                    Inl e \<Rightarrow> Inl e
                  | Inr None \<Rightarrow> Inl ApiError
                  | Inr (Some jsonString) \<Rightarrow>
                      if \<not> truthy jsonString then Inl ApiError
                      else
                        (case jsonString of
                           JStr js \<Rightarrow>
                             (case JSON_parse (trim (strip_fences js)) of
                                None \<Rightarrow> Inl SyntaxError
                              | Some plan \<Rightarrow> Inr plan)
                         | _ \<Rightarrow> Inl TypeError))))"

text \<open>The \<^verbatim>\<open>catch\<close> block returns \<^verbatim>\<open>null\<close>.\<close>

definition generate_response :: "error + response \<Rightarrow> json" where
  "generate_response fetched = (case generate_try fetched of Inl e \<Rightarrow> JNull | Inr plan \<Rightarrow> plan)"

subsection \<open>The chat reply\<close>

definition PLAN_UPDATE :: string where
  "PLAN_UPDATE = ''<<<PLAN_UPDATE>>>''"

text \<open>
  \<^verbatim>\<open>reply.match(/<<<PLAN_UPDATE>>>([\s\S]*?)<<<PLAN_UPDATE>>>/)\<close>: the leftmost position at
  which the delimiter stands and is followed, later, by the delimiter again; the group
  is the shortest text in between. The result is what stands before the match, the group
  and what stands after the match.
\<close>

fun match_update :: "string \<Rightarrow> (string \<times> string \<times> string) option" where
  "match_update [] = None"
| "match_update (c # cs) =
     (case (if is_prefix PLAN_UPDATE (c # cs)
            then split_first PLAN_UPDATE (drop (length PLAN_UPDATE) (c # cs)) else None) of
        Some (grp, after) \<Rightarrow> Some ([], grp, after)
      | None \<Rightarrow>
          (case match_update cs of
             None \<Rightarrow> None
           | Some (before, grp, after) \<Rightarrow> Some (c # before, grp, after)))"

definition plan_updated_note :: string where
  "plan_updated_note = [CHR 0x0A, CHR 0x0A] @ ''??**Plan Updated!**''"

definition technical_error_note :: string where
  "technical_error_note = [CHR 0x0A, CHR 0x0A] @ ''(Technical Error: Failed to apply plan update)''"

text \<open>
  The handling of the reply text in \<^verbatim>\<open>handleSend\<close>: the text shown, and the array handed to
  \<^verbatim>\<open>onUpdatePlan\<close> if there is one. \<^verbatim>\<open>onUpdatePlan\<close> is \<^verbatim>\<open>handleChatUpdatePlan\<close>; it is asynchronous
  and not awaited, so nothing it throws reaches \<^verbatim>\<open>handleSend\<close>.
\<close>

definition handle_reply :: "string \<Rightarrow> string \<times> json option" where
  "handle_reply reply =
     (case match_update reply of
        None \<Rightarrow> (reply, None)
      | Some (before, grp, after) \<Rightarrow>
          if grp = [] then (reply, None)
          else
            (case JSON_parse (trim grp) of
               None \<Rightarrow> (reply @ technical_error_note, None)
             | Some newPlan \<Rightarrow>
                 (case newPlan of
                    JArr days \<Rightarrow>
                      (trim (remove_first (PLAN_UPDATE @ grp @ PLAN_UPDATE) reply) @ plan_updated_note,
                       Some newPlan)
                  | _ \<Rightarrow> (reply, None))))"

datatype role = User | Model

record chat =
  messages :: "(role \<times> string) list"
  input :: string
  loading :: bool

definition no_response_text :: string where
  "no_response_text = ''Sorry, I couldn't generate a response.''"

definition connection_error_text :: string where
  "connection_error_text = ''Error connecting to coach. Please try again.''"

text \<open>
  \<^verbatim>\<open>data.candidates?.[0]?.content?.parts?.[0]?.text || "Sorry, ..."\<close>, on which \<^verbatim>\<open>match\<close> is
  then called: a TypeError when the text field holds a truthy value that is no string.
\<close>

definition reply_of :: "json \<Rightarrow> error + string" where
  "reply_of data =
     (case candidate_text data of
        Inl e \<Rightarrow> Inl e
      | Inr None \<Rightarrow> Inr no_response_text
      | Inr (Some v) \<Rightarrow>
          if \<not> truthy v then Inr no_response_text
          else (case v of JStr s \<Rightarrow> Inr s | _ \<Rightarrow> Inl TypeError))"

text \<open>
  \<^verbatim>\<open>handleSend\<close>: \<open>fetched\<close> is the outcome of \<^verbatim>\<open>fetch\<close> and \<^verbatim>\<open>response.json()\<close>. The result
  is the chat state after the turn and the array handed to \<^verbatim>\<open>onUpdatePlan\<close>, if any.
\<close>

definition handleSend :: "chat \<Rightarrow> error + json \<Rightarrow> chat \<times> json option" where
  "handleSend c fetched =
     (if trim (input c) = [] then (c, None)
      else
        (let msgs = messages c @ [(User, input c)] in
         (case (case fetched of Inl e \<Rightarrow> Inl e | Inr data \<Rightarrow> reply_of data) of
            Inl e \<Rightarrow>
              (\<lparr>messages = msgs @ [(Model, connection_error_text)], input = [], loading = False\<rparr>,
               None)
          | Inr reply \<Rightarrow>
              (\<lparr>messages = msgs @ [(Model, fst (handle_reply reply))], input = [], loading = False\<rparr>,
               snd (handle_reply reply)))))"

section \<open>Dates\<close>

text \<open>
  A \<^verbatim>\<open>Date\<close> holds a time value, the milliseconds since 1970-01-01T00:00Z, or is invalid
  (\<open>None\<close>). The calendar of the platform is the proleptic Gregorian one; \<open>days_from_civil\<close>
  and \<open>civil_from_days\<close> convert between a calendar date and the number of its day.
\<close>

definition msPerHour :: int where
  "msPerHour = 3600000"

definition msPerDay :: int where
  "msPerDay = 86400000"

definition days_from_civil :: "int \<Rightarrow> int \<Rightarrow> int \<Rightarrow> int" where
  "days_from_civil y m d =
     (let y' = (if m \<le> 2 then y - 1 else y);
          era = y' div 400;
          yoe = y' - era * 400;
          doy = (153 * (if m > 2 then m - 3 else m + 9) + 2) div 5 + d - 1;
          doe = yoe * 365 + yoe div 4 - yoe div 100 + doy
      in era * 146097 + doe - 719468)"

definition civil_from_days :: "int \<Rightarrow> int \<times> int \<times> int" where
  "civil_from_days z0 =
     (let z = z0 + 719468;
          era = z div 146097;
          doe = z - era * 146097;
          yoe = (doe - doe div 1460 + doe div 36524 - doe div 146096) div 365;
          doy = doe - (365 * yoe + yoe div 4 - yoe div 100);
          mp = (5 * doy + 2) div 153;
          d = doy - (153 * mp + 2) div 5 + 1;
          m = (if mp < 10 then mp + 3 else mp - 9)
      in (if m \<le> 2 then yoe + era * 400 + 1 else yoe + era * 400, m, d))"

definition days_in_month :: "int \<Rightarrow> int \<Rightarrow> int" where
  "days_in_month y m =
     (if m = 2 then (if y mod 4 = 0 \<and> (y mod 100 \<noteq> 0 \<or> y mod 400 = 0) then 29 else 28)
      else if m = 4 \<or> m = 6 \<or> m = 9 \<or> m = 11 then 30 else 31)"

text \<open>
  \<^verbatim>\<open>new Date(s)\<close> for a text of the form \<^verbatim>\<open>YYYY-MM-DD\<close>, which is read as midnight UTC of
  that date. This is the form of the values of a date input and of \<^verbatim>\<open>dateToISO\<close>, the only
  texts the application passes; any other text is taken as invalid here.
\<close>

definition Date_parse :: "string \<Rightarrow> int option" where
  "Date_parse s =
     (let ys = take 4 s; ms = take 2 (drop 5 s); ds = take 2 (drop 8 s) in
      if length s = 10 \<and> s ! 4 = CHR ''-'' \<and> s ! 7 = CHR ''-'' \<and> list_all is_digit (ys @ ms @ ds)
      then
        (let y = digits_val ys; m = digits_val ms; d = digits_val ds in
         if 1 \<le> m \<and> m \<le> 12 \<and> 1 \<le> d \<and> d \<le> days_in_month y m
         then Some (days_from_civil y m d * msPerDay) else None)
      else None)"

text \<open>The decimal digits of \<open>n\<close>, padded with zeros to the width \<open>w\<close>.\<close>

fun pad :: "nat \<Rightarrow> nat \<Rightarrow> string" where
  "pad 0 n = []"
| "pad (Suc w) n = pad w (n div 10) @ [char_of (48 + n mod 10)]"

text \<open>
  \<^verbatim>\<open>date.toISOString().split('T')[0]\<close> of a valid date: the calendar date in UTC, the year
  with four digits, or with a sign and six digits outside 0 to 9999.
\<close>

definition iso_date :: "int \<Rightarrow> string" where
  "iso_date t =
     (case civil_from_days (t div msPerDay) of
        (y, m, d) \<Rightarrow>
          (if 0 \<le> y \<and> y \<le> 9999 then pad 4 (nat y)
           else (if y < 0 then ''-'' else ''+'') @ pad 6 (nat \<bar>y\<bar>))
          @ ''-'' @ pad 2 (nat m) @ ''-'' @ pad 2 (nat d))"

text \<open>\<^verbatim>\<open>dateToISO\<close>: \<^verbatim>\<open>toISOString\<close> throws a RangeError on an invalid date.\<close>

definition dateToISO :: "int option \<Rightarrow> error + string" where
  "dateToISO date = (case date of None \<Rightarrow> Inl RangeError | Some t \<Rightarrow> Inr (iso_date t))"

text \<open>
  The time zone of the browser is a parameter \<open>tza\<close>, the function \<^verbatim>\<open>LocalTZA(t, isUTC)\<close> of
  the language standard: the offset of local time in milliseconds, at the UTC time \<open>t\<close>
  when \<open>isUTC\<close> holds and at the local time \<open>t\<close> otherwise.
  \<^verbatim>\<open>dt.setDate(dt.getDate() + n)\<close> reads the day of the month of the local time and sets it:
  the local time moves by \<open>n\<close> whole days, its time within the day is kept, and the
  result is converted back to UTC. A time value beyond 8.64e15 in magnitude is invalid.
\<close>

definition LocalTime :: "(int \<Rightarrow> bool \<Rightarrow> int) \<Rightarrow> int \<Rightarrow> int" where
  "LocalTime tza t = t + tza t True"

definition UTC_time :: "(int \<Rightarrow> bool \<Rightarrow> int) \<Rightarrow> int \<Rightarrow> int" where
  "UTC_time tza t = t - tza t False"

definition TimeClip :: "int \<Rightarrow> int option" where
  "TimeClip t = (if \<bar>t\<bar> \<le> 8640000000000000 then Some t else None)"

definition setDate_plus :: "(int \<Rightarrow> bool \<Rightarrow> int) \<Rightarrow> int \<Rightarrow> int \<Rightarrow> int option" where
  "setDate_plus tza n t = TimeClip (UTC_time tza (LocalTime tza t + n * msPerDay))"

text \<open>\<^verbatim>\<open>a < b\<close> on dates compares the time values, and is false when one is invalid.\<close>

fun date_less :: "int option \<Rightarrow> int option \<Rightarrow> bool" where
  "date_less (Some a) (Some b) = (a < b)"
| "date_less a b = False"

subsection \<open>getDaysArray\<close>

text \<open>
  The loop \<^verbatim>\<open>for (dt = new Date(start); dt <= new Date(end); dt.setDate(dt.getDate() + 1))\<close>.
  Inside the loop \<open>dt\<close> is valid, so \<^verbatim>\<open>dateToISO\<close> does not throw there. Whether the loop
  ends depends on the time zone; \<open>None\<close> is a loop that does not end.
\<close>

partial_function (option) days_loop ::
  "(int \<Rightarrow> bool \<Rightarrow> int) \<Rightarrow> int option \<Rightarrow> int option \<Rightarrow> string list \<Rightarrow> string list option" where
  "days_loop tza dt endDate arr =
     (case dt of
        None \<Rightarrow> Some arr
      | Some t \<Rightarrow>
          (case endDate of
             None \<Rightarrow> Some arr
           | Some u \<Rightarrow>
               if t \<le> u then days_loop tza (setDate_plus tza 1 t) endDate (arr @ [iso_date t])
               else Some arr))"

definition getDaysArray :: "(int \<Rightarrow> bool \<Rightarrow> int) \<Rightarrow> string \<Rightarrow> string \<Rightarrow> string list option" where
  "getDaysArray tza start endDate = days_loop tza (Date_parse start) (Date_parse endDate) []"

subsection \<open>The generation window of generateTrainingPlan\<close>

text \<open>
  The first lines of \<^verbatim>\<open>generateTrainingPlan\<close>, before its \<^verbatim>\<open>try\<close>: the pair of
  \<^verbatim>\<open>generationStartDate\<close> and \<^verbatim>\<open>generationEndDateStr\<close>, which the prompt names as the range
  of the schedule to generate ("ONLY from ... to ..."). \<open>now\<close> is the time value of
  \<^verbatim>\<open>new Date()\<close>.
\<close>

definition generation_window ::
  "(int \<Rightarrow> bool \<Rightarrow> int) \<Rightarrow> int \<Rightarrow> string \<Rightarrow> string \<Rightarrow> bool \<Rightarrow> error + string \<times> string" where
  "generation_window tza now startDate raceDate isAdjustment =
     (let race = Date_parse raceDate;
          generationStartDate = (if isAdjustment then iso_date now else startDate);
          fourWeeksLater =
            (case Date_parse generationStartDate of
               None \<Rightarrow> None
             | Some t \<Rightarrow> setDate_plus tza 28 t);
          generationEndDate = (if date_less fourWeeksLater race then fourWeeksLater else race)
      in case dateToISO generationEndDate of
           Inl e \<Rightarrow> Inl e
         | Inr generationEndDateStr \<Rightarrow> Inr (generationStartDate, generationEndDateStr))"

text \<open>
  \<^verbatim>\<open>generateTrainingPlan\<close>: the window is computed outside the \<^verbatim>\<open>try\<close>, then the request is
  sent; \<open>endpoint\<close> gives what \<^verbatim>\<open>fetch\<close> returns for the requested window.
\<close>

definition generateTrainingPlan ::
  "(int \<Rightarrow> bool \<Rightarrow> int) \<Rightarrow> int \<Rightarrow> (string \<times> string \<Rightarrow> error + response)
     \<Rightarrow> string \<Rightarrow> string \<Rightarrow> bool \<Rightarrow> error + json" where
  "generateTrainingPlan tza now endpoint startDate raceDate isAdjustment =
     (case generation_window tza now startDate raceDate isAdjustment of
        Inl e \<Rightarrow> Inl e
      | Inr window \<Rightarrow> Inr (generate_response (endpoint window)))"

subsection \<open>Time zones\<close>

definition utc :: "int \<Rightarrow> bool \<Rightarrow> int" where
  "utc t isUTC = 0"

text \<open>
  America/New_York in 2025: five hours behind UTC, four hours behind between
  2025-03-09T07:00Z and 2025-11-02T06:00Z. A local time that is skipped or repeated at a
  transition is read with the offset before the transition, as the standard says.
\<close>

definition dst_begin :: int where
  "dst_begin = days_from_civil 2025 3 9 * msPerDay + 7 * msPerHour"

definition dst_end :: int where
  "dst_end = days_from_civil 2025 11 2 * msPerDay + 6 * msPerHour"

definition new_york :: "int \<Rightarrow> bool \<Rightarrow> int" where
  "new_york t isUTC =
     (if isUTC then (if dst_begin \<le> t \<and> t < dst_end then - 4 * msPerHour else - 5 * msPerHour)
      else (if dst_begin - 4 * msPerHour \<le> t \<and> t < dst_end - 4 * msPerHour
            then - 4 * msPerHour else - 5 * msPerHour))"

section \<open>The log form\<close>









subsection \<open>Exact decimal numbers\<close>







section \<open>Plan deletion\<close>




section \<open>Example data\<close>

definition ex_session :: session where
  "ex_session = \<lparr>appId = ''default-app-id'', user = Some ''u1'', currentPlanId = Some ''p1''\<rparr>"

definition ex_day_path :: "string \<Rightarrow> path" where
  "ex_day_path d = [''artifacts'', ''default-app-id'', ''users'', ''u1'', ''plans'', ''p1'', ''days'', d]"

text \<open>The day log of the specification's merge example.\<close>

definition ex_store :: store where
  "ex_store = Map.empty(ex_day_path ''2025-02-01'' \<mapsto>
     [(''date'', JStr ''2025-02-01''), (''plannedActivity'', JStr ''Easy''),
      (''activities'', JArr [JObj [(''actualDistance'', JStr ''5''), (''rpe'', JNum 6 0)]])])"

definition ex_store_tempo :: store where
  "ex_store_tempo = ex_store(ex_day_path ''2025-02-01'' \<mapsto>
     [(''date'', JStr ''2025-02-01''), (''plannedActivity'', JStr ''Tempo''),
      (''activities'', JArr [JObj [(''actualDistance'', JStr ''5''), (''rpe'', JNum 6 0)]])])"

definition ex_proposal :: json where
  "ex_proposal = JObj [(''date'', JStr ''2025-02-01''), (''plannedActivity'', JStr ''Tempo'')]"

text \<open>A chat proposal that carries fields beyond the two of the schema.\<close>

definition ex_chat_proposal :: json where
  "ex_chat_proposal =
     JObj [(''date'', JStr ''2025-02-01''), (''plannedActivity'', JStr ''Tempo''),
           (''activities'', JArr []), (''coachFeedback'', JStr ''x'')]"

text \<open>A proposal list with one well-formed record and one that lacks \<^verbatim>\<open>plannedActivity\<close>.\<close>

definition ex_mixed_proposals :: json where
  "ex_mixed_proposals =
     JArr [JObj [(''date'', JStr ''2025-03-01''), (''plannedActivity'', JStr ''Rest'')],
           JObj [(''date'', JStr ''2025-03-02'')]]"

text \<open>A response of the endpoint whose first candidate holds the text \<open>t\<close>.\<close>

definition ex_result :: "string \<Rightarrow> json" where
  "ex_result t =
     JObj [(''candidates'', JArr [JObj [(''content'', JObj [(''parts'', JArr [JObj [(''text'', JStr t)]])])]])]"

definition ex_response :: "string \<Rightarrow> response" where
  "ex_response t = \<lparr>ok = True, parsed_body = Inr (ex_result t)\<rparr>"





definition ex_chat :: chat where
  "ex_chat = \<lparr>messages = [(Model, ''Hi!'')], input = ''Make Saturday a rest day'', loading = False\<rparr>"





section \<open>Properties of the store\<close>

lemma map_of_merge_fold_other:
  "f \<notin> fst ` set new \<Longrightarrow>
   map_of (fold (\<lambda>(k, v) acc. AList.update k (merge_json v (map_of acc k)) acc) new base) f
     = map_of base f"
  by (induction new arbitrary: base) (auto simp: update_conv')

lemma map_of_merge_doc_other:
  "f \<notin> fst ` set new \<Longrightarrow> map_of (merge_doc old new) f = (case old of None \<Rightarrow> None | Some ofs \<Rightarrow> map_of ofs f)"
  unfolding merge_doc_def by (simp add: map_of_merge_fold_other split: option.splits)

lemma field_apply_op_other:
  "\<not> touches w p f \<Longrightarrow> field (apply_op w st) p f = field st p f"
  by (cases w) (auto simp: touches_def field_def map_of_merge_doc_other split: option.splits)

lemma field_fold_apply_other:
  "\<forall>w \<in> set batch. \<not> touches w p f \<Longrightarrow> field (fold apply_op batch st) p f = field st p f"
  by (induction batch arbitrary: st) (simp_all add: field_apply_op_other)

lemma map_of_merge_fold_leaf:
  "distinct (map fst new) \<Longrightarrow> map_of new k = Some (JStr v) \<Longrightarrow>
   map_of (fold (\<lambda>(k, v) acc. AList.update k (merge_json v (map_of acc k)) acc) new base) k
     = Some (JStr v)"
proof (induction new arbitrary: base)
  case Nil
  then show ?case by simp
next
  case (Cons a new)
  obtain k' v' where a: "a = (k', v')" by (cases a)
  show ?case
  proof (cases "k' = k")
    case True
    with Cons.prems a have v': "v' = JStr v" and "k \<notin> fst ` set new" by auto
    then show ?thesis using a True
      by (simp add: map_of_merge_fold_other update_conv')
  next
    case False
    with Cons.prems a have "distinct (map fst new)" "map_of new k = Some (JStr v)" by auto
    from Cons.IH [OF this] show ?thesis using a by simp
  qed
qed

lemma map_of_merge_doc_leaf:
  "distinct (map fst new) \<Longrightarrow> map_of new k = Some (JStr v) \<Longrightarrow>
   map_of (merge_doc old new) k = Some (JStr v)"
  unfolding merge_doc_def by (rule map_of_merge_fold_leaf)

lemma field_apply_SetMerge_leaf:
  "distinct (map fst fs) \<Longrightarrow> map_of fs k = Some (JStr v) \<Longrightarrow>
   field (apply_op (SetMerge p fs) st) p k = Some (JStr v)"
  by (simp add: field_def map_of_merge_doc_leaf)

section \<open>Properties of the merge engine\<close>

lemma get_prop_Some_obj:
  "get_prop day k = Inr (Some v) \<Longrightarrow> \<exists>fs. day = JObj fs \<and> map_of fs k = Some v"
  by (cases day) auto

lemma adjust_ops_append:
  "adjust_ops coll (xs @ ys) =
     (case adjust_ops coll xs of
        Inl e \<Rightarrow> Inl e
      | Inr a \<Rightarrow> (case adjust_ops coll ys of Inl e \<Rightarrow> Inl e | Inr b \<Rightarrow> Inr (a @ b)))"
  by (induction xs) (auto split: sum.splits)

lemma chat_ops_append:
  "chat_ops coll (xs @ ys) =
     (case chat_ops coll xs of
        Inl e \<Rightarrow> Inl e
      | Inr a \<Rightarrow> (case chat_ops coll ys of Inl e \<Rightarrow> Inl e | Inr b \<Rightarrow> Inr (a @ b)))"
  by (induction xs) (auto split: sum.splits option.splits)

lemma adjust_ops_origin:
  "adjust_ops coll days = Inr ops \<Longrightarrow>
   \<forall>w \<in> set ops. \<exists>day \<in> set days. \<exists>d. get_prop day ''date'' = Inr (Some (JStr d)) \<and>
       w = SetMerge (coll @ [d]) (spread day)"
proof (induction days arbitrary: ops)
  case Nil
  then show ?case by simp
next
  case (Cons day rest)
  from Cons.prems obtain dv docRef ops' where
    d: "get_prop day ''date'' = Inr dv" and r: "doc coll dv = Inr docRef"
    and o: "adjust_ops coll rest = Inr ops'" and ops: "ops = SetMerge docRef (spread day) # ops'"
    by (auto split: sum.splits)
  from r obtain ds where "dv = Some (JStr ds)" "docRef = coll @ [ds]"
    by (cases "(coll, dv)" rule: doc.cases) (auto split: if_splits)
  with d ops Cons.IH [OF o] show ?case by auto
qed

lemma chat_ops_origin:
  "chat_ops coll days = Inr ops \<Longrightarrow>
   \<forall>w \<in> set ops. \<exists>day \<in> set days. \<exists>d pv. get_prop day ''date'' = Inr (Some (JStr d)) \<and>
       get_prop day ''plannedActivity'' = Inr (Some pv) \<and> truthy pv \<and> d \<noteq> [] \<and>
       w = SetMerge (coll @ [d]) [(''date'', JStr d), (''plannedActivity'', pv)]"
proof (induction days arbitrary: ops)
  case Nil
  then show ?case by simp
next
  case (Cons day rest)
  show ?case
  proof (cases "\<exists>dv pv. get_prop day ''date'' = Inr (Some dv) \<and> truthy dv \<and>
                  get_prop day ''plannedActivity'' = Inr (Some pv) \<and> truthy pv")
    case True
    then obtain dv pv where d: "get_prop day ''date'' = Inr (Some dv)" "truthy dv"
      and p: "get_prop day ''plannedActivity'' = Inr (Some pv)" "truthy pv" by blast
    with Cons.prems obtain docRef ops' where r: "doc coll (Some dv) = Inr docRef"
      and o: "chat_ops coll rest = Inr ops'"
      and ops: "ops = SetMerge docRef [(''date'', dv), (''plannedActivity'', pv)] # ops'"
      by (auto split: sum.splits)
    from r obtain ds where "dv = JStr ds" "docRef = coll @ [ds]" "ds \<noteq> []"
      by (cases "(coll, Some dv)" rule: doc.cases) (auto split: if_splits)
    with d p ops Cons.IH [OF o] show ?thesis by auto
  next
    case False
    with Cons.prems have "chat_ops coll rest = Inr ops"
      by (auto split: sum.splits option.splits if_splits)
    from Cons.IH [OF this] show ?thesis by auto
  qed
qed

lemma chat_ops_shape:
  "chat_ops coll days = Inr ops \<Longrightarrow>
   \<forall>w \<in> set ops. \<exists>ref dv pv. w = SetMerge ref [(''date'', dv), (''plannedActivity'', pv)]"
proof (induction days arbitrary: ops)
  case Nil
  then show ?case by simp
next
  case (Cons day rest)
  then show ?case
    by (auto split: sum.splits option.splits if_splits)
qed

lemma chat_batch_shape:
  "chat_batch a uid pid newDays = Inr ops \<Longrightarrow>
   \<forall>w \<in> set ops. \<exists>ref dv pv. w = SetMerge ref [(''date'', dv), (''plannedActivity'', pv)]"
  unfolding chat_batch_def by (auto split: sum.splits dest: chat_ops_shape)

lemma handleChat_cases:
  "handleChatUpdatePlan s accepted newDays st = Inr (st', al) \<Longrightarrow>
   st' = st \<or> (\<exists>uid pid batch. user s = Some uid \<and> selected (currentPlanId s) = Some pid \<and>
       chat_batch (appId s) uid pid newDays = Inr batch \<and> st' = fold apply_op batch st)"
  unfolding handleChatUpdatePlan_def commit_def
  by (auto split: option.splits sum.splits if_splits)

lemma handleAdjust_cases:
  "handleAdjustPlan s hasPlan accepted (Inr plan) st = Inr (st', al) \<Longrightarrow>
   st' = st \<or> (\<exists>uid pid batch. user s = Some uid \<and> currentPlanId s = Some pid \<and>
       adjust_batch (appId s) uid pid plan = Inr batch \<and> st' = fold apply_op batch st)"
  unfolding handleAdjustPlan_def commit_def
  by (auto split: option.splits sum.splits if_splits)

lemma handleAdjust_applied:
  "user s = Some uid \<Longrightarrow> currentPlanId s = Some pid \<Longrightarrow>
   handleAdjustPlan s True True (Inr (JArr days)) st = Inr (st', al) \<Longrightarrow>
   \<exists>batch. adjust_ops (daysRef (appId s) uid pid) days = Inr batch \<and> st' = fold apply_op batch st"
  unfolding handleAdjustPlan_def commit_def adjust_batch_def
  by (auto split: option.splits sum.splits if_splits)

lemma handleChat_applied:
  "user s = Some uid \<Longrightarrow> currentPlanId s = Some pid \<Longrightarrow> pid \<noteq> [] \<Longrightarrow>
   handleChatUpdatePlan s True (JArr days) st = Inr (st', al) \<Longrightarrow>
   \<exists>batch. chat_ops (daysRef (appId s) uid pid) days = Inr batch \<and> st' = fold apply_op batch st"
  unfolding handleChatUpdatePlan_def commit_def chat_batch_def
  by (auto split: option.splits sum.splits if_splits)

lemma adjust_frame:
  assumes b: "adjust_ops coll days = Inr batch"
    and abs: "\<forall>day \<in> set days. get_prop day ''date'' = Inr (Some (JStr d)) \<longrightarrow> get_prop day f = Inr None"
  shows "field (fold apply_op batch st) (coll @ [d]) f = field st (coll @ [d]) f"
proof (rule field_fold_apply_other, rule ballI)
  fix w assume "w \<in> set batch"
  with adjust_ops_origin [OF b] obtain day d' where day: "day \<in> set days"
    and d': "get_prop day ''date'' = Inr (Some (JStr d'))"
    and w: "w = SetMerge (coll @ [d']) (spread day)" by blast
  from get_prop_Some_obj [OF d'] obtain fs where fs: "day = JObj fs" by blast
  show "\<not> touches w (coll @ [d]) f"
  proof
    assume "touches w (coll @ [d]) f"
    with w fs have "d' = d" and "f \<in> fst ` set fs" by (auto simp: touches_def)
    moreover from abs day d' \<open>d' = d\<close> fs have "map_of fs f = None" by auto
    ultimately show False by (simp add: map_of_eq_None_iff)
  qed
qed

lemma chat_frame:
  assumes b: "chat_ops coll days = Inr batch"
    and abs: "\<forall>day \<in> set days. get_prop day ''date'' = Inr (Some (JStr d)) \<longrightarrow> get_prop day f = Inr None"
  shows "field (fold apply_op batch st) (coll @ [d]) f = field st (coll @ [d]) f"
proof (rule field_fold_apply_other, rule ballI)
  fix w assume "w \<in> set batch"
  with chat_ops_origin [OF b] obtain day d' pv where day: "day \<in> set days"
    and d': "get_prop day ''date'' = Inr (Some (JStr d'))"
    and pv: "get_prop day ''plannedActivity'' = Inr (Some pv)"
    and w: "w = SetMerge (coll @ [d']) [(''date'', JStr d'), (''plannedActivity'', pv)]" by blast
  show "\<not> touches w (coll @ [d]) f"
  proof
    assume "touches w (coll @ [d]) f"
    with w have "d' = d" and "f = ''date'' \<or> f = ''plannedActivity''" by (auto simp: touches_def)
    with abs day d' pv show False by auto
  qed
qed

lemma adjust_value:
  assumes b: "adjust_ops coll (pre @ JObj fs # post) = Inr batch"
    and dist: "distinct (map fst fs)"
    and d: "map_of fs ''date'' = Some (JStr d)"
    and pa: "map_of fs ''plannedActivity'' = Some (JStr pa)"
    and later: "\<forall>day \<in> set post. get_prop day ''date'' \<noteq> Inr (Some (JStr d))"
  shows "field (fold apply_op batch st) (coll @ [d]) ''plannedActivity'' = Some (JStr pa)"
proof -
  from b d obtain a c where a: "adjust_ops coll pre = Inr a" and c: "adjust_ops coll post = Inr c"
    and batch: "batch = a @ SetMerge (coll @ [d]) fs # c"
    by (auto simp: adjust_ops_append split: sum.splits if_splits)
  have "\<forall>w \<in> set c. \<not> touches w (coll @ [d]) ''plannedActivity''"
    using adjust_ops_origin [OF c] later by (fastforce simp: touches_def)
  then show ?thesis
    unfolding batch
    by (simp add: field_fold_apply_other field_apply_SetMerge_leaf dist pa del: apply_op.simps)
qed

lemma chat_value:
  assumes b: "chat_ops coll (pre @ JObj fs # post) = Inr batch"
    and d: "map_of fs ''date'' = Some (JStr d)" "d \<noteq> []"
    and pa: "map_of fs ''plannedActivity'' = Some (JStr pa)" "pa \<noteq> []"
    and later: "\<forall>day \<in> set post. get_prop day ''date'' \<noteq> Inr (Some (JStr d))"
  shows "field (fold apply_op batch st) (coll @ [d]) ''plannedActivity'' = Some (JStr pa)"
proof -
  from b d pa obtain a c where a: "chat_ops coll pre = Inr a" and c: "chat_ops coll post = Inr c"
    and batch: "batch = a @ SetMerge (coll @ [d]) [(''date'', JStr d), (''plannedActivity'', JStr pa)] # c"
    by (auto simp: chat_ops_append split: sum.splits if_splits)
  have "\<forall>w \<in> set c. \<not> touches w (coll @ [d]) ''plannedActivity''"
    using chat_ops_origin [OF c] later by (fastforce simp: touches_def)
  then show ?thesis
    unfolding batch
    by (simp add: field_fold_apply_other field_apply_SetMerge_leaf del: apply_op.simps)
qed

lemma ex_paths:
  "daysRef (appId ex_session) ''u1'' ''p1'' @ [d] = ex_day_path d"
  "daysRef ''default-app-id'' ''u1'' ''p1'' @ [d] = ex_day_path d"
  by (simp_all add: daysRef_def planRef_def safeAppId_def is_id_char_def ex_session_def ex_day_path_def)

lemma ex_adjust_run:
  "handleAdjustPlan ex_session True True (Inr (JArr [ex_proposal])) ex_store
   = Inr (ex_store_tempo, [''Plan adjusted based on your logs!''])"
  by (simp add: handleAdjustPlan_def ex_session_def adjust_batch_def daysRef_def planRef_def
      safeAppId_def is_id_char_def commit_def merge_doc_def ex_store_def ex_store_tempo_def
      ex_day_path_def ex_proposal_def)

lemma ex_chat_run:
  "handleChatUpdatePlan ex_session True (JArr [ex_chat_proposal]) ex_store
   = Inr (ex_store_tempo, [])"
  by (simp add: handleChatUpdatePlan_def ex_session_def chat_batch_def daysRef_def planRef_def
      safeAppId_def is_id_char_def commit_def merge_doc_def ex_store_def ex_store_tempo_def
      ex_day_path_def ex_chat_proposal_def)

text \<open>
  Claim C1. Every write of a batched plan update, from \<^verbatim>\<open>handleAdjustPlan\<close> or from
  \<^verbatim>\<open>handleChatUpdatePlan\<close>, is a merge-upsert. For the day document of a date \<open>d\<close>, a field
  \<open>f\<close> that no incoming record of that date carries has the same value after the handler
  as before (logged actuals such as \<^verbatim>\<open>activities\<close>, \<^verbatim>\<open>actualDistance\<close>, \<^verbatim>\<open>rpe\<close>, \<^verbatim>\<open>feeling\<close>,
  \<^verbatim>\<open>coachFeedback\<close> among them). When the update is applied (a plan is selected and the
  commit is accepted), \<^verbatim>\<open>plannedActivity\<close> of that document is the text of the incoming
  record, the last one of that date in the list.
\<close>

theorem merge_upsert_keeps_stored_fields:
  assumes u: "user s = Some uid" and p: "currentPlanId s = Some pid"
    and run: "handleAdjustPlan s hasPlan accepted (Inr (JArr days)) st = Inr (st', al)
              \<or> handleChatUpdatePlan s accepted (JArr days) st = Inr (st', al)"
  shows "(\<forall>d f. (\<forall>day \<in> set days. get_prop day ''date'' = Inr (Some (JStr d))
                     \<longrightarrow> get_prop day f = Inr None)
            \<longrightarrow> field st' (daysRef (appId s) uid pid @ [d]) f
                  = field st (daysRef (appId s) uid pid @ [d]) f)
       \<and> (hasPlan \<and> accepted \<and> pid \<noteq> [] \<longrightarrow>
           (\<forall>pre fs post d pa.
               days = pre @ JObj fs # post \<and> distinct (map fst fs)
               \<and> map_of fs ''date'' = Some (JStr d) \<and> d \<noteq> []
               \<and> map_of fs ''plannedActivity'' = Some (JStr pa) \<and> pa \<noteq> []
               \<and> (\<forall>day \<in> set post. get_prop day ''date'' \<noteq> Inr (Some (JStr d)))
             \<longrightarrow> field st' (daysRef (appId s) uid pid @ [d]) ''plannedActivity'' = Some (JStr pa)))"
proof (intro conjI allI impI)
  fix d f
  assume abs: "\<forall>day \<in> set days. get_prop day ''date'' = Inr (Some (JStr d)) \<longrightarrow> get_prop day f = Inr None"
  let ?c = "daysRef (appId s) uid pid"
  from run show "field st' (?c @ [d]) f = field st (?c @ [d]) f"
  proof
    assume "handleAdjustPlan s hasPlan accepted (Inr (JArr days)) st = Inr (st', al)"
    from handleAdjust_cases [OF this] u p show ?thesis
      by (auto simp: adjust_batch_def adjust_frame [OF _ abs])
  next
    assume "handleChatUpdatePlan s accepted (JArr days) st = Inr (st', al)"
    from handleChat_cases [OF this] u p show ?thesis
      by (auto simp: chat_batch_def chat_frame [OF _ abs] split: if_splits)
  qed
next
  fix pre fs post d pa
  assume flags: "hasPlan \<and> accepted \<and> pid \<noteq> []"
    and h: "days = pre @ JObj fs # post \<and> distinct (map fst fs)
               \<and> map_of fs ''date'' = Some (JStr d) \<and> d \<noteq> []
               \<and> map_of fs ''plannedActivity'' = Some (JStr pa) \<and> pa \<noteq> []
               \<and> (\<forall>day \<in> set post. get_prop day ''date'' \<noteq> Inr (Some (JStr d)))"
  let ?c = "daysRef (appId s) uid pid"
  from run show "field st' (?c @ [d]) ''plannedActivity'' = Some (JStr pa)"
  proof
    assume "handleAdjustPlan s hasPlan accepted (Inr (JArr days)) st = Inr (st', al)"
    with flags have "handleAdjustPlan s True True (Inr (JArr days)) st = Inr (st', al)" by simp
    from handleAdjust_applied [OF u p this] obtain batch where
      "adjust_ops ?c days = Inr batch" "st' = fold apply_op batch st" by blast
    with h show ?thesis by (simp add: adjust_value)
  next
    assume "handleChatUpdatePlan s accepted (JArr days) st = Inr (st', al)"
    with flags have "handleChatUpdatePlan s True (JArr days) st = Inr (st', al)" by simp
    from handleChat_applied [OF u p _ this] flags obtain batch where
      "chat_ops ?c days = Inr batch" "st' = fold apply_op batch st" by blast
    with h show ?thesis by (simp add: chat_value)
  qed
qed

text \<open>
  The specification's example: the stored log keeps \<^verbatim>\<open>activities[0].actualDistance = "5"\<close>
  and its planned activity becomes \<^verbatim>\<open>"Tempo"\<close>.
\<close>

theorem merge_upsert_keeps_stored_fields_witness:
  "handleAdjustPlan ex_session True True (Inr (JArr [ex_proposal])) ex_store
     = Inr (ex_store_tempo, [''Plan adjusted based on your logs!''])
   \<and> field ex_store_tempo (ex_day_path ''2025-02-01'') ''activities''
       = Some (JArr [JObj [(''actualDistance'', JStr ''5''), (''rpe'', JNum 6 0)]])
   \<and> field ex_store_tempo (ex_day_path ''2025-02-01'') ''plannedActivity'' = Some (JStr ''Tempo'')"
proof -
  have u: "user ex_session = Some ''u1''" and p: "currentPlanId ex_session = Some ''p1''"
    by (simp_all add: ex_session_def)
  note t = merge_upsert_keeps_stored_fields [OF u p disjI1 [OF ex_adjust_run]]
  from t have "field ex_store_tempo (ex_day_path ''2025-02-01'') ''activities''
               = field ex_store (ex_day_path ''2025-02-01'') ''activities''"
    unfolding ex_paths by (simp add: ex_proposal_def)
  moreover from t
  have "field ex_store_tempo (ex_day_path ''2025-02-01'') ''plannedActivity'' = Some (JStr ''Tempo'')"
    unfolding ex_paths
    by (elim conjE) (drule mp, simp, drule spec [of _ "[]"], simp add: ex_proposal_def)
  ultimately show ?thesis
    using ex_adjust_run by (simp add: field_def ex_store_def)
qed

text \<open>
  Claim C10. Every upsert that the chat mutation path issues carries exactly the two
  fields \<^verbatim>\<open>date\<close> and \<^verbatim>\<open>plannedActivity\<close>; whatever else a proposed record holds is
  discarded, so after \<^verbatim>\<open>handleChatUpdatePlan\<close> every other field of every document of
  the store is as it was.
\<close>

theorem chat_writes_only_date_and_plannedActivity:
  assumes "handleChatUpdatePlan s accepted newDays st = Inr (st', al)"
  shows "(\<forall>uid pid batch. chat_batch (appId s) uid pid newDays = Inr batch \<longrightarrow>
            (\<forall>w \<in> set batch. \<exists>ref dv pv. w = SetMerge ref [(''date'', dv), (''plannedActivity'', pv)]))
         \<and> (\<forall>p f. f \<noteq> ''date'' \<longrightarrow> f \<noteq> ''plannedActivity'' \<longrightarrow> field st' p f = field st p f)"
proof (intro conjI allI impI)
  fix uid pid batch assume "chat_batch (appId s) uid pid newDays = Inr batch"
  then show "\<forall>w \<in> set batch. \<exists>ref dv pv. w = SetMerge ref [(''date'', dv), (''plannedActivity'', pv)]"
    by (rule chat_batch_shape)
next
  fix p f assume f: "f \<noteq> ''date''" "f \<noteq> ''plannedActivity''"
  from handleChat_cases [OF assms] show "field st' p f = field st p f"
  proof
    assume "st' = st" then show ?thesis by simp
  next
    assume "\<exists>uid pid batch. user s = Some uid \<and> selected (currentPlanId s) = Some pid \<and>
       chat_batch (appId s) uid pid newDays = Inr batch \<and> st' = fold apply_op batch st"
    then obtain uid pid batch where b: "chat_batch (appId s) uid pid newDays = Inr batch"
      and st': "st' = fold apply_op batch st" by blast
    have "\<forall>w \<in> set batch. \<not> touches w p f"
      using chat_batch_shape [OF b] f by (fastforce simp: touches_def)
    then show ?thesis unfolding st' by (rule field_fold_apply_other)
  qed
qed

theorem chat_writes_only_date_and_plannedActivity_witness:
  "handleChatUpdatePlan ex_session True (JArr [ex_chat_proposal]) ex_store = Inr (ex_store_tempo, [])
   \<and> chat_batch ''default-app-id'' ''u1'' ''p1'' (JArr [ex_chat_proposal])
       = Inr [SetMerge (ex_day_path ''2025-02-01'')
               [(''date'', JStr ''2025-02-01''), (''plannedActivity'', JStr ''Tempo'')]]
   \<and> field ex_store_tempo (ex_day_path ''2025-02-01'') ''activities''
       = Some (JArr [JObj [(''actualDistance'', JStr ''5''), (''rpe'', JNum 6 0)]])
   \<and> field ex_store_tempo (ex_day_path ''2025-02-01'') ''coachFeedback'' = None"
proof -
  note t = chat_writes_only_date_and_plannedActivity [OF ex_chat_run]
  from t have "field ex_store_tempo (ex_day_path ''2025-02-01'') ''activities''
               = field ex_store (ex_day_path ''2025-02-01'') ''activities''"
    and "field ex_store_tempo (ex_day_path ''2025-02-01'') ''coachFeedback''
               = field ex_store (ex_day_path ''2025-02-01'') ''coachFeedback''"
    by simp_all
  moreover have "chat_batch ''default-app-id'' ''u1'' ''p1'' (JArr [ex_chat_proposal])
       = Inr [SetMerge (ex_day_path ''2025-02-01'')
               [(''date'', JStr ''2025-02-01''), (''plannedActivity'', JStr ''Tempo'')]]"
    by (simp add: chat_batch_def ex_chat_proposal_def ex_paths)
  ultimately show ?thesis
    using ex_chat_run by (simp add: field_def ex_store_def)
qed

text \<open>
  The chat path drops a record that lacks \<^verbatim>\<open>date\<close> or \<^verbatim>\<open>plannedActivity\<close>: the batch is the
  one of the list without that record.
\<close>

lemma chat_ops_drops_incomplete:
  "get_prop day ''date'' = Inr None \<or> get_prop day ''plannedActivity'' = Inr None \<Longrightarrow>
   chat_ops coll (pre @ day # post) = chat_ops coll (pre @ post)"
  by (cases day) (auto simp: chat_ops_append split: sum.splits option.splits)

lemma chat_batch_mixed:
  "chat_batch ''default-app-id'' ''u1'' ''p1'' ex_mixed_proposals
   = Inr [SetMerge (ex_day_path ''2025-03-01'')
            [(''date'', JStr ''2025-03-01''), (''plannedActivity'', JStr ''Rest'')]]"
  by (simp add: chat_batch_def ex_mixed_proposals_def ex_paths)

text \<open>
  Claim C3 says that the merge step drops a record that lacks \<^verbatim>\<open>date\<close> or
  \<^verbatim>\<open>plannedActivity\<close> on the regeneration path as on the chat path, so that a list with one
  well-formed record and one record without \<^verbatim>\<open>plannedActivity\<close> gives exactly one upsert.
  \<^verbatim>\<open>handleAdjustPlan\<close> has no such check: on that list it issues two upserts, the
  second one for the record that has no \<^verbatim>\<open>plannedActivity\<close>.
\<close>

theorem adjust_batch_keeps_incomplete_record:
  "adjust_batch ''default-app-id'' ''u1'' ''p1'' ex_mixed_proposals
   = Inr [SetMerge (ex_day_path ''2025-03-01'')
            [(''date'', JStr ''2025-03-01''), (''plannedActivity'', JStr ''Rest'')],
          SetMerge (ex_day_path ''2025-03-02'') [(''date'', JStr ''2025-03-02'')]]"
  by (simp add: adjust_batch_def ex_mixed_proposals_def ex_paths)

text \<open>A record without \<^verbatim>\<open>date\<close> makes the regeneration path throw: nothing is committed.\<close>

lemma adjust_batch_missing_date:
  "adjust_batch a uid pid (JArr [JObj [(''plannedActivity'', JStr ''Rest'')]]) = Inl FirestoreError"
  by (simp add: adjust_batch_def)

section \<open>Properties of the response handling\<close>












lemma ex_candidate_text: "candidate_text (ex_result t) = Inr (Some (JStr t))"
  by (simp add: candidate_text_def ex_result_def)


text \<open>
  Claim C5. Once the request is sent (the generation window was computed),
  \<^verbatim>\<open>generateTrainingPlan\<close> returns to its caller whatever the endpoint answers, and it returns
  \<^verbatim>\<open>null\<close> when \<^verbatim>\<open>fetch\<close> fails, when the status is not a success, when the body is no JSON,
  when the text field is absent or empty, and when the text fails to parse after the
  fence markers are stripped.
\<close>

theorem generation_failure_returns_null:
  assumes w: "generation_window tza now startDate raceDate isAdjustment = Inr window"
  shows "generateTrainingPlan tza now endpoint startDate raceDate isAdjustment
           = Inr (generate_response (endpoint window))
       \<and> (\<forall>e. endpoint window = Inl e \<longrightarrow> generate_response (endpoint window) = JNull)
       \<and> (\<forall>resp. endpoint window = Inr resp \<and> \<not> ok resp
                 \<longrightarrow> generate_response (endpoint window) = JNull)
       \<and> (\<forall>resp e. endpoint window = Inr resp \<and> parsed_body resp = Inl e
                 \<longrightarrow> generate_response (endpoint window) = JNull)
       \<and> (\<forall>resp result. endpoint window = Inr resp \<and> parsed_body resp = Inr result
                 \<and> (candidate_text result = Inr None
                      \<or> (\<exists>v. candidate_text result = Inr (Some v) \<and> \<not> truthy v)
                      \<or> (\<exists>e. candidate_text result = Inl e))
                 \<longrightarrow> generate_response (endpoint window) = JNull)
       \<and> (\<forall>resp result js. endpoint window = Inr resp \<and> parsed_body resp = Inr result
                 \<and> candidate_text result = Inr (Some (JStr js))
                 \<and> JSON_parse (trim (strip_fences js)) = None
                 \<longrightarrow> generate_response (endpoint window) = JNull)"
  using w
  by (auto simp: generateTrainingPlan_def generate_response_def generate_try_def
      split: sum.splits option.splits json.splits)

lemma ex_window:
  "generation_window new_york now ''2025-01-01'' ''2025-12-31'' False = Inr (''2025-01-01'', ''2025-01-29'')"
proof -
  have s: "Date_parse ''2025-01-01'' = Some 1735689600000" by code_simp
  have r: "Date_parse ''2025-12-31'' = Some 1767139200000" by code_simp
  have f: "setDate_plus new_york 28 1735689600000 = Some 1738108800000" by code_simp
  have i: "iso_date 1738108800000 = ''2025-01-29''" by code_simp
  show ?thesis
    by (simp add: generation_window_def s r f i dateToISO_def)
qed

lemma not_json_parse: "JSON_parse (trim (strip_fences ''not json'')) = None"
  by code_simp

text \<open>The response text \<^verbatim>\<open>not json\<close> gives \<^verbatim>\<open>null\<close>, and nothing is thrown.\<close>

theorem generation_failure_returns_null_witness:
  "generateTrainingPlan new_york 0 (\<lambda>w. Inr (ex_response ''not json'')) ''2025-01-01'' ''2025-12-31'' False
   = Inr JNull"
proof -
  note t = generation_failure_returns_null [OF ex_window,
      where endpoint = "\<lambda>w. Inr (ex_response ''not json'')" and now = 0]
  have "generate_response (Inr (ex_response ''not json'')) = JNull"
    using t ex_candidate_text [of "''not json''"] not_json_parse
    by (auto simp: ex_response_def)
  with t show ?thesis by simp
qed

section \<open>Properties of the chat reply handling\<close>









lemma handleSend_transcript:
  "trim (input c) \<noteq> [] \<Longrightarrow>
   \<exists>shown. messages (fst (handleSend c fetched)) = messages c @ [(User, input c), (Model, shown)]"
  by (auto simp: handleSend_def Let_def split: sum.splits)







section \<open>Properties of the date computations\<close>

text \<open>
  In a time zone whose offset never changes the loop of \<^verbatim>\<open>getDaysArray\<close> yields every day
  from the first to the last, and the window ends 28 days after its start or at the race.
\<close>

lemma setDate_plus_fixed:
  "\<forall>t b. tza t b = c \<Longrightarrow> setDate_plus tza n t = TimeClip (t + n * msPerDay)"
  by (simp add: setDate_plus_def UTC_time_def LocalTime_def)

lemma days_loop_fixed_offset:
  assumes tz: "\<forall>t b. tza t b = c"
    and hi: "d1 < 100000000" and lo: "- 100000000 \<le> d"
  shows "d \<le> d1 + 1 \<Longrightarrow>
         days_loop tza (Some (d * msPerDay)) (Some (d1 * msPerDay)) arr
           = Some (arr @ map (\<lambda>k. iso_date (k * msPerDay)) [d..d1])"
  using lo
proof (induction "nat (d1 + 1 - d)" arbitrary: d arr)
  case 0
  then have "d = d1 + 1" by simp
  then have "\<not> d * msPerDay \<le> d1 * msPerDay" by (simp add: msPerDay_def)
  moreover have "[d..d1] = []" using \<open>d = d1 + 1\<close> by simp
  ultimately show ?case
    by (subst days_loop.simps) simp
next
  case (Suc n)
  then have le: "d \<le> d1" by simp
  have clip: "TimeClip (d * msPerDay + msPerDay) = Some ((d + 1) * msPerDay)"
    using le hi Suc.prems by (simp add: TimeClip_def msPerDay_def algebra_simps)
  have n: "n = nat (d1 + 1 - (d + 1))" using Suc.hyps(2) by simp
  have ih: "days_loop tza (Some ((d + 1) * msPerDay)) (Some (d1 * msPerDay)) (arr @ [iso_date (d * msPerDay)])
        = Some ((arr @ [iso_date (d * msPerDay)]) @ map (\<lambda>k. iso_date (k * msPerDay)) [d + 1..d1])"
    using Suc.hyps(1) [OF n] le Suc.prems by simp
  have c: "d * msPerDay \<le> d1 * msPerDay" using le by (simp add: msPerDay_def)
  have "[d..d1] = d # [d + 1..d1]" using le by (simp add: upto_rec1)
  then show ?case
    by (subst days_loop.simps) (simp add: setDate_plus_fixed [OF tz] clip ih c)
qed

lemma getDaysArray_fixed_offset:
  assumes "\<forall>t b. tza t b = c"
    and "Date_parse start = Some (d0 * msPerDay)" and "Date_parse endDate = Some (d1 * msPerDay)"
    and "d0 \<le> d1" and "- 100000000 \<le> d0" and "d1 < 100000000"
  shows "getDaysArray tza start endDate = Some (map (\<lambda>k. iso_date (k * msPerDay)) [d0..d1])"
  unfolding getDaysArray_def using assms
  by (simp add: days_loop_fixed_offset [where c = c])

lemma generation_window_fixed_offset:
  assumes "\<forall>t b. tza t b = c"
    and "Date_parse startDate = Some s" and "Date_parse raceDate = Some r"
    and "\<bar>s + 28 * msPerDay\<bar> \<le> 8640000000000000"
  shows "generation_window tza now startDate raceDate False
         = Inr (startDate, iso_date (min (s + 28 * msPerDay) r))"
  using assms
  by (simp add: generation_window_def setDate_plus_fixed [where c = c] TimeClip_def dateToISO_def
      min_def Let_def)

lemma parse_0308: "Date_parse ''2025-03-08'' = Some 1741392000000" by code_simp
lemma parse_0310: "Date_parse ''2025-03-10'' = Some 1741564800000" by code_simp
lemma ny_step1: "setDate_plus new_york 1 1741392000000 = Some 1741478400000" by code_simp
lemma ny_step2: "setDate_plus new_york 1 1741478400000 = Some 1741561200000" by code_simp
lemma ny_step3: "setDate_plus new_york 1 1741561200000 = Some 1741647600000" by code_simp
lemma iso_a: "iso_date 1741392000000 = ''2025-03-08''" by code_simp
lemma iso_b: "iso_date 1741478400000 = ''2025-03-09''" by code_simp
lemma iso_c: "iso_date 1741561200000 = ''2025-03-09''" by code_simp

text \<open>
  Claim C8 says that \<^verbatim>\<open>getDaysArray(start, end)\<close> is the sequence of every calendar date from
  \<open>start\<close> to \<open>end\<close>, each one day after the previous, whatever daylight-saving boundary
  is crossed. The loop reads the dates as UTC midnights, steps them in local time and
  prints them in UTC: in New York, across the start of daylight saving time on
  2025-03-09, it yields 2025-03-09 twice and never reaches 2025-03-10.
\<close>

theorem getDaysArray_new_york_spring:
  "getDaysArray new_york ''2025-03-08'' ''2025-03-10''
   = Some [''2025-03-08'', ''2025-03-09'', ''2025-03-09'']"
  unfolding getDaysArray_def parse_0308 parse_0310
  apply (subst days_loop.simps, simp add: ny_step1 iso_a)
  apply (subst days_loop.simps, simp add: ny_step2 iso_b)
  apply (subst days_loop.simps, simp add: ny_step3 iso_c)
  apply (subst days_loop.simps, simp)
  done

text \<open>
  Claim C7 says that the generation window ends at the earlier of the start plus 28 days
  and the race date. The 28 days are added in local time and the result is printed in
  UTC: in New York, for a start on 2025-03-01 and a race on 2025-12-31, the window ends
  on 2025-03-28, 27 days after the start.
\<close>

theorem generation_window_new_york_spring:
  "generation_window new_york now ''2025-03-01'' ''2025-12-31'' False
   = Inr (''2025-03-01'', ''2025-03-28'')"
proof -
  have s: "Date_parse ''2025-03-01'' = Some 1740787200000" by code_simp
  have r: "Date_parse ''2025-12-31'' = Some 1767139200000" by code_simp
  have f: "setDate_plus new_york 28 1740787200000 = Some 1743202800000" by code_simp
  have i: "iso_date 1743202800000 = ''2025-03-28''" by code_simp
  show ?thesis
    by (simp add: generation_window_def s r f i dateToISO_def)
qed

text \<open>The two windows that the specification gives as examples, in New York.\<close>

lemma generation_window_new_york_january:
  "generation_window new_york now ''2025-01-01'' ''2025-12-31'' False = Inr (''2025-01-01'', ''2025-01-29'')"
  "generation_window new_york now ''2025-01-01'' ''2025-01-10'' False = Inr (''2025-01-01'', ''2025-01-10'')"
proof -
  have s: "Date_parse ''2025-01-01'' = Some 1735689600000" by code_simp
  have r: "Date_parse ''2025-12-31'' = Some 1767139200000" by code_simp
  have r': "Date_parse ''2025-01-10'' = Some 1736467200000" by code_simp
  have f: "setDate_plus new_york 28 1735689600000 = Some 1738108800000" by code_simp
  have i: "iso_date 1738108800000 = ''2025-01-29''" by code_simp
  have i': "iso_date 1736467200000 = ''2025-01-10''" by code_simp
  show "generation_window new_york now ''2025-01-01'' ''2025-12-31'' False = Inr (''2025-01-01'', ''2025-01-29'')"
    by (simp add: generation_window_def s r f i dateToISO_def)
  show "generation_window new_york now ''2025-01-01'' ''2025-01-10'' False = Inr (''2025-01-01'', ''2025-01-10'')"
    by (simp add: generation_window_def s r' f i' dateToISO_def)
qed

lemma getDaysArray_utc_spring:
  "getDaysArray utc ''2025-03-08'' ''2025-03-10'' = Some [''2025-03-08'', ''2025-03-09'', ''2025-03-10'']"
proof -
  have a: "1741392000000 = 20155 * msPerDay" "1741564800000 = 20157 * msPerDay"
    by (simp_all add: msPerDay_def)
  have u: "[20155..20157] = [20155, 20156, 20157::int]" by code_simp
  have i: "iso_date (20155 * msPerDay) = ''2025-03-08''" "iso_date (20156 * msPerDay) = ''2025-03-09''"
    "iso_date (20157 * msPerDay) = ''2025-03-10''" by code_simp+
  have "getDaysArray utc ''2025-03-08'' ''2025-03-10'' = Some (map (\<lambda>k. iso_date (k * msPerDay)) [20155..20157])"
    by (rule getDaysArray_fixed_offset [where c = 0]) (simp_all add: utc_def parse_0308 parse_0310 a)
  then show ?thesis by (simp add: u i)
qed

section \<open>Properties of plan deletion\<close>





section \<open>Properties of the log form\<close>









end
